theory Spec2Isabelle
  imports Main "HOL-Library.AList" "HOL-Library.Sublist"
begin

section \<open>HTTP service contexts: Network, Host, Partition, Controller\<close>

text \<open>
  A shallow embedding of \<^verbatim>\<open>service.py\<close>. Python \<^verbatim>\<open>str\<close> and \<^verbatim>\<open>bytes\<close> values are
  both character lists; a character whose code is 128 or more stands for any code point
  outside ASCII. Every \<^verbatim>\<open>raise\<close> of the source, and every failure of a Python built-in
  that the source can reach, is a value \<open>Inl e\<close> of the result type.
\<close>

type_synonym bytes = string

datatype error =
    KeyError
  | TypeError
  | ValueError
  | AttributeError
  | UnicodeEncodeError
  | Exception string

subsection \<open>Python built-ins used by the source\<close>

text \<open>\<^verbatim>\<open>str(i)\<close> for an integer: decimal digits, most significant first, a minus sign
  for negative numbers.\<close>

definition digit_char :: "nat \<Rightarrow> char" where
  "digit_char d = ''0123456789'' ! d"

fun str_nat :: "nat \<Rightarrow> string" where
  "str_nat n = (if n < 10 then [digit_char n] else str_nat (n div 10) @ [digit_char (n mod 10)])"

declare str_nat.simps [simp del]

definition str_int :: "int \<Rightarrow> string" where
  "str_int i = (if i < 0 then CHR ''-'' # str_nat (nat (- i)) else str_nat (nat i))"

text \<open>\<^verbatim>\<open>s.encode('ascii')\<close>: fails on the first character outside ASCII.\<close>

definition is_ascii :: "string \<Rightarrow> bool" where
  "is_ascii s = list_all (\<lambda>c. (of_char c :: nat) < 128) s"

definition encode_ascii :: "string \<Rightarrow> error + bytes" where
  "encode_ascii s = (if is_ascii s then Inr s else Inl UnicodeEncodeError)"

text \<open>\<^verbatim>\<open>s.replace('_', ' ')\<close>.\<close>

definition replace_underscores :: "string \<Rightarrow> string" where
  "replace_underscores s = map (\<lambda>c. if c = CHR ''_'' then CHR '' '' else c) s"

text \<open>\<^verbatim>\<open>sep.join(xs)\<close>.\<close>

fun bytes_join :: "bytes \<Rightarrow> bytes list \<Rightarrow> bytes" where
  "bytes_join sep [] = []"
| "bytes_join sep [x] = x"
| "bytes_join sep (x # y # ys) = x @ sep @ bytes_join sep (y # ys)"

text \<open>\<^verbatim>\<open>s.count('/')\<close>.\<close>

definition count_sep :: "string \<Rightarrow> nat" where
  "count_sep s = length (filter (\<lambda>c. c = CHR ''/'') s)"

subsection \<open>The lifecycle state of \<^verbatim>\<open>core.Context\<close>\<close>

text \<open>
  \<^verbatim>\<open>core.Context\<close> belongs to the kernel package, outside this repository. The model keeps
  the two things the source reads from it, the \<^verbatim>\<open>functioning\<close> flag and the
  \<^verbatim>\<open>controller.subtransactions\<close> collection, and records every call the source makes on
  the lifecycle primitive, in order, without assuming what the kernel does with it.
\<close>

datatype 'c kcall =
    StartTermination
  | SubTerminate 'c
  | ExitIfEmpty

record 'c lifecycle =
  functioning :: bool
  subtransactions :: "'c list"
  kcalls :: "'c kcall list"

text \<open>Modelled from the spec: \<^verbatim>\<open>core.Transaction.create\<close> followed by
  \<^verbatim>\<open>xact_dispatch\<close> is missing from the sources; the lifecycle primitive
  (create/dispatch/terminate) makes the dispatched component a child unit of work.\<close>

definition xact_dispatch :: "'c \<Rightarrow> 'c lifecycle \<Rightarrow> 'c lifecycle" where
  "xact_dispatch x c = c\<lparr>subtransactions := subtransactions c @ [x]\<rparr>"

text \<open>The body shared by the three \<^verbatim>\<open>terminate\<close> methods after their guard:
  \<^verbatim>\<open>start_termination()\<close>, \<^verbatim>\<open>x.terminate()\<close> for every subtransaction,
  \<^verbatim>\<open>xact_exit_if_empty()\<close>.\<close>

definition terminate_cascade :: "'c lifecycle \<Rightarrow> 'c lifecycle" where
  "terminate_cascade c =
     c\<lparr>kcalls := kcalls c @ [StartTermination] @ map SubTerminate (subtransactions c) @ [ExitIfEmpty]\<rparr>"

text \<open>A component that is not functioning: not yet actuated, or terminated.\<close>

definition idle_lifecycle :: "'c lifecycle" where
  "idle_lifecycle = \<lparr>functioning = False, subtransactions = [], kcalls = []\<rparr>"

subsection \<open>Partition\<close>

record partition =
  part_path :: string
  part_depth :: int
  part_context :: "nat lifecycle"

definition Partition_init :: "string \<Rightarrow> partition" where
  "Partition_init path =
     \<lparr>part_path = path,
      part_depth = int (count_sep path) - 1,
      part_context = idle_lifecycle\<rparr>"

definition Partition_terminate :: "partition \<Rightarrow> partition" where
  "Partition_terminate p =
     (if \<not> functioning (part_context p) then p
      else p\<lparr>part_context := terminate_cascade (part_context p)\<rparr>)"

subsection \<open>Host\<close>

text \<open>
  \<^verbatim>\<open>h_names\<close> and \<^verbatim>\<open>h_allowed_methods\<close> are Python sets; the lists below give their
  elements in the order in which the set iterates, which Python does not fix. Both may be
  \<^verbatim>\<open>None\<close>. \<^verbatim>\<open>h_partitions\<close> is a dictionary, kept as an association list in
  insertion order; \<^verbatim>\<open>h_root\<close> holds the keys given to the prefix index and does not exist
  before \<^verbatim>\<open>h_configure\<close> ran. Weak references are not modelled: an entry stays as long
  as the table does.
\<close>

record host =
  h_canonical :: "string option"
  h_names :: "string list option"
  h_allowed_methods :: "bytes list option"
  h_partitions :: "(string \<times> partition) list"
  h_root :: "string list option"
  h_context :: "partition lifecycle"

definition h_defaults_allowed_methods :: "bytes list" where
  "h_defaults_allowed_methods =
     [''GET'', ''HEAD'', ''POST'', ''PUT'', ''PATCH'', ''DELETE'', ''OPTIONS'']"

definition Host_init :: host where
  "Host_init =
     \<lparr>h_canonical = None, h_names = None,
      h_allowed_methods = Some h_defaults_allowed_methods,
      h_partitions = [], h_root = None,
      h_context = idle_lifecycle\<rparr>"

definition h_update_names :: "string list \<Rightarrow> host \<Rightarrow> host" where
  "h_update_names names h =
     h\<lparr>h_names := Some (remdups names),
       h_canonical := (case names of [] \<Rightarrow> None | n # _ \<Rightarrow> Some n)\<rparr>"

text \<open>\<^verbatim>\<open>h_configure\<close>: the first loop stores each partition under its path, a later
  partition replacing an earlier one with the same path; the index is built from the keys;
  the second loop dispatches every partition of the argument.\<close>

definition h_configure :: "partition list \<Rightarrow> host \<Rightarrow> error + host" where
  "h_configure partitions h =
     (let hp = fold (\<lambda>partctx m. AList.update (part_path partctx) partctx m) partitions []
      in Inr (h\<lparr>h_partitions := hp,
               h_root := Some (map fst hp),
               h_context := fold xact_dispatch partitions (h_context h)\<rparr>))"

definition Host_terminate :: "host \<Rightarrow> host" where
  "Host_terminate h = h\<lparr>h_context := terminate_cascade (h_context h)\<rparr>"

text \<open>Modelled from the spec: \<^verbatim>\<open>match.SubsequenceScan\<close> is missing from the sources. The
  prefix index is keyed by all mounted prefixes and \<^verbatim>\<open>get\<close> returns the longest key that
  is a prefix of the path, or none.\<close>

definition scan_get :: "string list \<Rightarrow> string \<Rightarrow> string option" where
  "scan_get keys path =
     (case filter (\<lambda>k. take (length k) path = k) keys of
        [] \<Rightarrow> None
      | k # ks \<Rightarrow> Some (fold (\<lambda>c best. if length best < length c then c else best) ks k))"

subsection \<open>Network\<close>

record network =
  http_default_host :: "string option"
  http_hosts :: "(string \<times> host) list"
  hostsrc :: "host list option"
  net_context :: "host lifecycle"

definition Network_init :: "host list \<Rightarrow> network" where
  "Network_init hs =
     \<lparr>http_default_host = None, http_hosts = [], hostsrc = Some hs,
      net_context = idle_lifecycle\<rparr>"

text \<open>\<^verbatim>\<open>net_dispatch\<close>: the host is dispatched first; iterating \<^verbatim>\<open>h_names\<close> raises when
  the host was given no names.\<close>

definition net_dispatch :: "host \<Rightarrow> network \<Rightarrow> error + network" where
  "net_dispatch h net =
     (case h_names h of
        None \<Rightarrow> Inl TypeError
      | Some names \<Rightarrow>
          Inr (net\<lparr>net_context := xact_dispatch h (net_context net),
                   http_hosts := fold (\<lambda>h_name m. AList.update h_name h m) names (http_hosts net)\<rparr>))"

fun net_dispatch_all :: "host list \<Rightarrow> network \<Rightarrow> error + network" where
  "net_dispatch_all [] net = Inr net"
| "net_dispatch_all (h # hs) net =
     (case net_dispatch h net of Inl e \<Rightarrow> Inl e | Inr net' \<Rightarrow> net_dispatch_all hs net')"

definition net_actuate :: "network \<Rightarrow> error + network" where
  "net_actuate net =
     (case hostsrc net of
        None \<Rightarrow> Inl AttributeError
      | Some hs \<Rightarrow>
          (case net_dispatch_all hs net of
             Inl e \<Rightarrow> Inl e
           | Inr net' \<Rightarrow> Inr (net'\<lparr>hostsrc := None\<rparr>)))"

text \<open>\<^verbatim>\<open>self.http_hosts.get(name) or self.http_hosts[self.http_default_host]\<close>. A name that
  is \<^verbatim>\<open>None\<close> is no key of the table; a Host object is true.\<close>

definition hosts_get :: "(string \<times> host) list \<Rightarrow> string option \<Rightarrow> host option" where
  "hosts_get tbl name = (case name of None \<Rightarrow> None | Some n \<Rightarrow> map_of tbl n)"

definition net_select_host :: "network \<Rightarrow> string option \<Rightarrow> error + host" where
  "net_select_host net name =
     (case hosts_get (http_hosts net) name of
        Some h \<Rightarrow> Inr h
      | None \<Rightarrow>
          (case hosts_get (http_hosts net) (http_default_host net) of
             None \<Rightarrow> Inl KeyError
           | Some h \<Rightarrow> Inr h))"

definition Network_terminate :: "network \<Rightarrow> network" where
  "Network_terminate net =
     (if \<not> functioning (net_context net) then net
      else net\<lparr>net_context := terminate_cascade (net_context net)\<rparr>)"

subsection \<open>Controller\<close>

text \<open>
  \<^verbatim>\<open>http.Structures\<close> is missing from the sources; the request is the record of the four
  properties the source reads, and the constructor is a parameter \<open>S\<close> of the functions
  that build requests from headers.
\<close>

record request =
  req_pathstring :: string
  req_method :: string
  req_host :: "string option"
  req_final :: bool

text \<open>
  The channel handed to \<^verbatim>\<open>connect\<close> or \<^verbatim>\<open>accept\<close> is \<^verbatim>\<open>None\<close>, the relay that
  \<^verbatim>\<open>http_iterate_output\<close> builds for the request's channel id, or some other object.
  The transport hooks \<^verbatim>\<open>_connect_output\<close>, \<^verbatim>\<open>_connect_input\<close> and the invocations object
  are opaque: each call on them is appended to the connection's log, tagged with the
  channel id of the request it belongs to.
\<close>

datatype chan = Relay nat | Channel nat

type_synonym response_tuple = "bytes \<times> bytes \<times> (bytes \<times> bytes) list \<times> int option"

datatype event =
    ConnectInput nat "chan option"
  | ConnectOutput nat "response_tuple option" "chan option"
  | IClose
  | IUpdate host
  | Dispatch "bytes list list" nat

text \<open>
  \<^verbatim>\<open>_response\<close> is the tuple \<^verbatim>\<open>(code, descr, self.response_headers, length)\<close>: its third
  component is the same list object as \<^verbatim>\<open>response_headers\<close>, which is only ever appended
  to. The record stores the three other components and \<open>response_tuple_of\<close> reads the
  headers through the alias.
\<close>

record controller =
  request :: request
  response_headers :: "(bytes \<times> bytes) list"
  response :: "(bytes \<times> bytes \<times> int option) option"
  request_channel_id :: nat

definition Controller_init :: "request \<Rightarrow> nat \<Rightarrow> controller" where
  "Controller_init struct channel_id =
     \<lparr>request = struct, response_headers = [], response = None,
      request_channel_id = channel_id\<rparr>"

definition response_tuple_of :: "controller \<Rightarrow> response_tuple option" where
  "response_tuple_of ctl =
     (case response ctl of
        None \<Rightarrow> None
      | Some (code, descr, len) \<Rightarrow> Some (code, descr, response_headers ctl, len))"

definition add_header :: "bytes \<Rightarrow> bytes \<Rightarrow> controller \<Rightarrow> controller" where
  "add_header key val ctl = ctl\<lparr>response_headers := response_headers ctl @ [(key, val)]\<rparr>"

definition http_content_headers :: "bytes \<Rightarrow> controller \<Rightarrow> error + controller" where
  "http_content_headers cotype ctl =
     (case response ctl of
        None \<Rightarrow> Inl TypeError
      | Some (code, descr, l) \<Rightarrow>
          (let ctl1 = add_header ''Content-Type'' cotype ctl
           in case l of
                None \<Rightarrow> Inr (add_header ''Transfer-Encoding'' ''chunked'' ctl1)
              | Some n \<Rightarrow> Inr (add_header ''Content-Length'' (str_int n) ctl1)))"

definition set_response ::
  "bytes \<Rightarrow> bytes \<Rightarrow> int option \<Rightarrow> bytes option \<Rightarrow> controller \<Rightarrow> error + controller" where
  "set_response code descr len cotype ctl =
     (let ctl1 = ctl\<lparr>response := Some (code, descr, len)\<rparr>
      in case cotype of
           None \<Rightarrow> Inr ctl1
         | Some ct \<Rightarrow> http_content_headers ct ctl1)"

definition connect ::
  "chan option \<Rightarrow> controller \<Rightarrow> event list \<Rightarrow> error + controller \<times> event list" where
  "connect channel ctl log =
     (if req_final (request ctl) then
        (let ctl1 = add_header ''Connection'' ''close'' ctl
         in Inr (ctl1, log @ [ConnectOutput (request_channel_id ctl1) (response_tuple_of ctl1) channel,
                             IClose]))
      else
        Inr (ctl, log @ [ConnectOutput (request_channel_id ctl) (response_tuple_of ctl) channel]))"

definition accept ::
  "chan option \<Rightarrow> controller \<Rightarrow> event list \<Rightarrow> error + controller \<times> event list" where
  "accept channel ctl log = Inr (ctl, log @ [ConnectInput (request_channel_id ctl) channel])"

definition http_continue ::
  "(bytes \<times> bytes) list \<Rightarrow> controller \<Rightarrow> event list \<Rightarrow> error + controller \<times> event list" where
  "http_continue headers ctl log = Inl (Exception ''not supported'')"

text \<open>\<^verbatim>\<open>http_iterate_output\<close>: a transfer whose flow is the iteration followed by the relay
  of this request's channel id is dispatched, then the relay is connected as the body.\<close>

definition http_iterate_output ::
  "bytes list list \<Rightarrow> controller \<Rightarrow> event list \<Rightarrow> error + controller \<times> event list" where
  "http_iterate_output iterator ctl log =
     connect (Some (Relay (request_channel_id ctl))) ctl
       (log @ [Dispatch iterator (request_channel_id ctl)])"

subsection \<open>Host: error rendering and routing\<close>

text \<open>
  \<^verbatim>\<open>http.protocoldata.codes\<close> is missing from the sources: the table is the parameter
  \<open>codes\<close>. The two \<^verbatim>\<open>lru_cache\<close> wrappers memoise pure functions, of an integer code and
  of a description string, and are left out.
\<close>

definition descriptioncache :: "(int \<Rightarrow> string option) \<Rightarrow> int \<Rightarrow> error + string" where
  "descriptioncache codes obj =
     (case codes obj of None \<Rightarrow> Inl KeyError | Some d \<Rightarrow> Inr (replace_underscores d))"

definition error_document :: "bytes \<Rightarrow> bytes \<Rightarrow> bytes" where
  \<open>error_document code_bytes description_bytes =
     concat
      [''<?xml version="1.0" encoding="ascii"?>'',
       ''<?xml-stylesheet type="text/xsl" href="'',
       ''/sys/error.xsl'',
       ''"?>'',
       ''<error xmlns="http://if.fault.io/xml/failure" domain="/internet/http">'',
       ''<frame code="'' @ code_bytes @ ''" message="'' @ description_bytes @ ''"/>'',
       ''</error>'']\<close>

definition h_error ::
  "(int \<Rightarrow> string option) \<Rightarrow> controller \<Rightarrow> int \<Rightarrow> string option \<Rightarrow> event list
    \<Rightarrow> error + controller \<times> event list" where
  "h_error codes ctl code description log =
     (let code_bytes = str_int code
      in case (case description of None \<Rightarrow> descriptioncache codes code | Some d \<Rightarrow> Inr d) of
           Inl e \<Rightarrow> Inl e
         | Inr descr \<Rightarrow>
             (case encode_ascii descr of
                Inl e \<Rightarrow> Inl e
              | Inr description_bytes \<Rightarrow>
                  (let errmsg = error_document code_bytes description_bytes
                   in case set_response code_bytes description_bytes
                             (Some (int (length errmsg))) (Some ''text/xml'') ctl of
                        Inl e \<Rightarrow> Inl e
                      | Inr ctl1 \<Rightarrow> http_iterate_output [[errmsg]] ctl1 log)))"

definition h_options_request ::
  "host \<Rightarrow> controller \<Rightarrow> event list \<Rightarrow> error + controller \<times> event list" where
  "h_options_request h ctl log =
     (case h_allowed_methods h of
        None \<Rightarrow> Inl TypeError
      | Some ms \<Rightarrow>
          (case set_response ''204'' ''NO CONTENT'' None None
                  (add_header ''Allow'' (bytes_join '','' ms) ctl) of
             Inl e \<Rightarrow> Inl e
           | Inr ctl1 \<Rightarrow>
               (case accept None ctl1 log of
                  Inl e \<Rightarrow> Inl e
                | Inr (ctl2, log1) \<Rightarrow> connect None ctl2 log1)))"

definition h_fallback ::
  "(int \<Rightarrow> string option) \<Rightarrow> controller \<Rightarrow> event list \<Rightarrow> error + controller \<times> event list" where
  "h_fallback codes ctl log =
     (case accept None ctl log of
        Inl e \<Rightarrow> Inl e
      | Inr (ctl1, log1) \<Rightarrow> h_error codes ctl1 404 None log1)"

text \<open>\<^verbatim>\<open>Partition.part_select\<close> of the base class.\<close>

definition part_select ::
  "(int \<Rightarrow> string option) \<Rightarrow> controller \<Rightarrow> event list \<Rightarrow> error + controller \<times> event list" where
  "part_select codes ctl log =
     (case accept None ctl log of
        Inl e \<Rightarrow> Inl e
      | Inr (ctl1, log1) \<Rightarrow> h_error codes ctl1 500 (Some ''MISCONFIGURED'') log1)"

definition h_route ::
  "(int \<Rightarrow> string option) \<Rightarrow> host \<Rightarrow> controller \<Rightarrow> event list
    \<Rightarrow> error + controller \<times> event list" where
  "h_route codes h ctl log =
     (let path = req_pathstring (request ctl)
      in case h_root h of
           None \<Rightarrow> Inl AttributeError
         | Some keys \<Rightarrow>
             (case scan_get keys path of
                None \<Rightarrow>
                  (if path = ''*'' \<and> req_method (request ctl) = ''OPTIONS''
                   then h_options_request h ctl log
                   else h_fallback codes ctl log)
              | Some initial \<Rightarrow>
                  (case map_of (h_partitions h) initial of
                     None \<Rightarrow> Inl KeyError
                   | Some p \<Rightarrow> part_select codes ctl log)))"

subsection \<open>Accepting a batch of pipelined requests\<close>

text \<open>One element of \<^verbatim>\<open>zip(*invp.inv_accept())\<close>: the channel id and the request
  parameters; the two transport hooks of the element are identified with the channel id.\<close>

record descriptor =
  d_channel_id :: nat
  d_method :: bytes
  d_uri :: bytes
  d_headers :: "(bytes \<times> bytes) list"

definition struct_of :: "((bytes \<times> bytes) list \<Rightarrow> request) \<Rightarrow> descriptor \<Rightarrow> request" where
  "struct_of S d = S (d_headers d @ [('':Method'', d_method d), ('':URI'', d_uri d)])"

fun h_accept ::
  "((bytes \<times> bytes) list \<Rightarrow> request) \<Rightarrow> (int \<Rightarrow> string option) \<Rightarrow> host \<Rightarrow> descriptor list
    \<Rightarrow> event list \<Rightarrow> error + event list" where
  "h_accept S codes h [] log = Inr log"
| "h_accept S codes h (d # ds) log =
     (case h_route codes h (Controller_init (struct_of S d) (d_channel_id d)) log of
        Inl e \<Rightarrow> Inl e
      | Inr (ctl, log1) \<Rightarrow> h_accept S codes h ds log1)"

text \<open>The second loop of \<^verbatim>\<open>net_accept\<close>, over the remainder of the batch.\<close>

fun net_accept_remainder ::
  "((bytes \<times> bytes) list \<Rightarrow> request) \<Rightarrow> (int \<Rightarrow> string option) \<Rightarrow> host \<Rightarrow> descriptor list
    \<Rightarrow> event list \<Rightarrow> error + event list" where
  "net_accept_remainder S codes h [] log = Inr log"
| "net_accept_remainder S codes h (d # ds) log =
     (let struct = struct_of S d;
          ctl = Controller_init struct (d_channel_id d)
      in case h_route codes h ctl log of
           Inl e \<Rightarrow> Inl e
         | Inr (ctl1, log1) \<Rightarrow> net_accept_remainder S codes h ds log1)"

definition net_accept ::
  "((bytes \<times> bytes) list \<Rightarrow> request) \<Rightarrow> (int \<Rightarrow> string option) \<Rightarrow> network \<Rightarrow> descriptor list
    \<Rightarrow> event list \<Rightarrow> error + host \<times> event list" where
  "net_accept S codes net batch log =
     (case batch of
        [] \<Rightarrow> Inl ValueError
      | first # remainder \<Rightarrow>
          (let struct = struct_of S first
           in case net_select_host net (req_host struct) of
                Inl e \<Rightarrow> Inl e
              | Inr h \<Rightarrow>
                  (let ctl = Controller_init struct (d_channel_id first)
                   in case h_route codes h ctl (log @ [IUpdate h]) of
                        Inl e \<Rightarrow> Inl e
                      | Inr (ctl1, log1) \<Rightarrow>
                          (case net_accept_remainder S codes h remainder log1 of
                             Inl e \<Rightarrow> Inl e
                           | Inr log2 \<Rightarrow> Inr (h, log2)))))"

subsection \<open>Reading values back\<close>

text \<open>The integer a decimal header value denotes: the reading a peer applies to a
  \<^verbatim>\<open>Content-Length\<close> value. It is used to state that the header carries the length.\<close>

definition digit_val :: "char \<Rightarrow> nat" where
  "digit_val c = of_char c - 48"

definition dec_nat :: "string \<Rightarrow> nat" where
  "dec_nat s = foldl (\<lambda>a c. 10 * a + digit_val c) 0 s"

definition dec_int :: "string \<Rightarrow> int" where
  "dec_int s =
     (case s of
        [] \<Rightarrow> 0
      | c # r \<Rightarrow> if c = CHR ''-'' then - int (dec_nat r) else int (dec_nat s))"


subsection \<open>Observations used in the statements\<close>

text \<open>What \<^verbatim>\<open>connect\<close> adds for the final request of a pipeline: the
  \<^verbatim>\<open>Connection: close\<close> header, and the call of \<^verbatim>\<open>i_close\<close> after the response is
  connected.\<close>

definition closing_headers :: "controller \<Rightarrow> (bytes \<times> bytes) list" where
  "closing_headers ctl = (if req_final (request ctl) then [(''Connection'', ''close'')] else [])"

definition closing_events :: "controller \<Rightarrow> event list" where
  "closing_events ctl = (if req_final (request ctl) then [IClose] else [])"

text \<open>A result reported relative to a log that already holds \<open>log\<close>.\<close>

definition with_log :: "event list \<Rightarrow> error + controller \<times> event list \<Rightarrow> error + controller \<times> event list" where
  "with_log log r = (case r of Inl e \<Rightarrow> Inl e | Inr (c, evs) \<Rightarrow> Inr (c, log @ evs))"

text \<open>Routing one descriptor of a batch through a Host, from an empty log: whether it
  succeeds, and the events it records.\<close>

definition route_result ::
  "((bytes \<times> bytes) list \<Rightarrow> request) \<Rightarrow> (int \<Rightarrow> string option) \<Rightarrow> host \<Rightarrow> descriptor
    \<Rightarrow> error + controller \<times> event list" where
  "route_result S codes h d =
     h_route codes h (Controller_init (struct_of S d) (d_channel_id d)) []"

definition route_ok ::
  "((bytes \<times> bytes) list \<Rightarrow> request) \<Rightarrow> (int \<Rightarrow> string option) \<Rightarrow> host \<Rightarrow> descriptor \<Rightarrow> bool" where
  "route_ok S codes h d = (case route_result S codes h d of Inl e \<Rightarrow> False | Inr r \<Rightarrow> True)"

definition route_events ::
  "((bytes \<times> bytes) list \<Rightarrow> request) \<Rightarrow> (int \<Rightarrow> string option) \<Rightarrow> host \<Rightarrow> descriptor
    \<Rightarrow> event list" where
  "route_events S codes h d = (case route_result S codes h d of Inl e \<Rightarrow> [] | Inr r \<Rightarrow> snd r)"

subsection \<open>Example values\<close>

definition example_request :: request where
  "example_request =
     \<lparr>req_pathstring = ''/'', req_method = ''GET'', req_host = None, req_final = False\<rparr>"

definition example_controller :: controller where
  "example_controller = Controller_init example_request 0"

definition example_host :: host where
  "example_host = h_update_names [''example''] Host_init"

definition example_network :: network where
  "example_network = (Network_init [example_host])\<lparr>http_default_host := Some ''example''\<rparr>"

definition serving_network :: network where
  "serving_network =
     example_network\<lparr>http_hosts := [(''example'', example_host)],
                     hostsrc := None,
                     net_context := idle_lifecycle\<lparr>subtransactions := [example_host]\<rparr>\<rparr>"

definition terminated_host :: host where
  "terminated_host =
     Host_init\<lparr>h_context := idle_lifecycle\<lparr>kcalls := [StartTermination, ExitIfEmpty]\<rparr>\<rparr>"

definition example_codes :: "int \<Rightarrow> string option" where
  "example_codes = [404 \<mapsto> ''NOT_FOUND'', 500 \<mapsto> ''INTERNAL_SERVER_ERROR'']"

definition mounted_host :: host where
  "mounted_host =
     Host_init\<lparr>h_partitions := [(''/app'', Partition_init ''/app'')],
               h_root := Some [''/app''],
               h_context := idle_lifecycle\<lparr>subtransactions := [Partition_init ''/app'']\<rparr>\<rparr>"



definition nomatch_controller :: controller where
  "nomatch_controller =
     Controller_init
       \<lparr>req_pathstring = ''/nomatch'', req_method = ''GET'', req_host = None, req_final = True\<rparr> 8"

text \<open>An instance of the request constructor, for the examples: the host is the
  \<^verbatim>\<open>Host\<close> header, method and path are the two pseudo headers appended by the source,
  and the request is final when it carries \<^verbatim>\<open>Connection: close\<close>.\<close>

definition example_structures :: "(bytes \<times> bytes) list \<Rightarrow> request" where
  "example_structures headers =
     \<lparr>req_pathstring = (case map_of headers '':URI'' of None \<Rightarrow> [] | Some u \<Rightarrow> u),
      req_method = (case map_of headers '':Method'' of None \<Rightarrow> [] | Some m \<Rightarrow> m),
      req_host = map_of headers ''Host'',
      req_final = (map_of headers ''Connection'' = Some ''close'')\<rparr>"

definition host_a :: host where
  "host_a = h_update_names [''a.example''] mounted_host"

definition host_b :: host where
  "host_b = (h_update_names [''b.example''] mounted_host)\<lparr>h_allowed_methods := Some [''GET'']\<rparr>"

definition two_host_network :: network where
  "two_host_network =
     \<lparr>http_default_host = Some ''a.example'',
      http_hosts = [(''a.example'', host_a), (''b.example'', host_b)],
      hostsrc = None,
      net_context = idle_lifecycle\<lparr>subtransactions := [host_a, host_b]\<rparr>\<rparr>"

definition options_for :: "nat \<Rightarrow> bytes \<Rightarrow> descriptor" where
  "options_for cid name =
     \<lparr>d_channel_id = cid, d_method = ''OPTIONS'', d_uri = ''*'', d_headers = [(''Host'', name)]\<rparr>"

section \<open>Properties\<close>

subsection \<open>Auxiliary facts\<close>

lemma digit_val_char: "d < 10 \<Longrightarrow> digit_val (digit_char d) = d"
proof -
  assume "d < 10"
  then consider "d = 0" | "d = 1" | "d = 2" | "d = 3" | "d = 4"
    | "d = 5" | "d = 6" | "d = 7" | "d = 8" | "d = 9"
    by atomize_elim arith
  then show ?thesis by cases (simp_all add: digit_char_def digit_val_def)
qed

lemma digit_char_not_minus: "d < 10 \<Longrightarrow> digit_char d \<noteq> CHR ''-''"
proof -
  assume "d < 10"
  then consider "d = 0" | "d = 1" | "d = 2" | "d = 3" | "d = 4"
    | "d = 5" | "d = 6" | "d = 7" | "d = 8" | "d = 9"
    by atomize_elim arith
  then show ?thesis by cases (simp_all add: digit_char_def)
qed

lemma dec_nat_snoc: "dec_nat (s @ [c]) = 10 * dec_nat s + digit_val c"
  by (simp add: dec_nat_def)

lemma dec_nat_str_nat: "dec_nat (str_nat n) = n"
proof (induction n rule: str_nat.induct)
  case (1 n)
  show ?case
  proof (cases "n < 10")
    case True
    then show ?thesis
      by (simp add: str_nat.simps [of n] dec_nat_def digit_val_char)
  next
    case False
    then have "dec_nat (str_nat (n div 10)) = n div 10" using 1 by simp
    moreover have "n mod 10 < 10" by simp
    ultimately show ?thesis using False
      by (simp add: str_nat.simps [of n] dec_nat_snoc digit_val_char)
  qed
qed

lemma str_nat_head: "\<exists>c r. str_nat n = c # r \<and> c \<noteq> CHR ''-''"
proof (induction n rule: str_nat.induct)
  case (1 n)
  show ?case
  proof (cases "n < 10")
    case True
    then show ?thesis
      by (simp add: str_nat.simps [of n] digit_char_not_minus)
  next
    case False
    then obtain c r where "str_nat (n div 10) = c # r" "c \<noteq> CHR ''-''" using 1 by blast
    then show ?thesis using False
      by (simp add: str_nat.simps [of n])
  qed
qed

lemma dec_int_str_int: "dec_int (str_int i) = i"
proof (cases "i < 0")
  case True
  then show ?thesis by (simp add: str_int_def dec_int_def dec_nat_str_nat)
next
  case False
  obtain c r where cr: "str_nat (nat i) = c # r" "c \<noteq> CHR ''-''"
    using str_nat_head by blast
  have "dec_nat (c # r) = nat i" using dec_nat_str_nat [of "nat i"] cr by simp
  then show ?thesis using False cr by (simp add: str_int_def dec_int_def)
qed

lemma set_response_eq:
  "set_response code descr len cotype ctl =
     Inr (ctl\<lparr>response := Some (code, descr, len),
              response_headers := response_headers ctl @
                 (case cotype of
                    None \<Rightarrow> []
                  | Some ct \<Rightarrow>
                      [(''Content-Type'', ct),
                       (case len of
                          None \<Rightarrow> (''Transfer-Encoding'', ''chunked'')
                        | Some n \<Rightarrow> (''Content-Length'', str_int n))])\<rparr>)"
  by (simp add: set_response_def http_content_headers_def add_header_def Let_def
      split: option.splits)

lemma map_of_fold_update:
  "map_of (fold (\<lambda>p m. AList.update (f p) p m) ps m0)
     = map_of m0 ++ map_of (rev (map (\<lambda>p. (f p, p)) ps))"
proof (induction ps arbitrary: m0)
  case Nil
  show ?case by simp
next
  case (Cons p ps)
  show ?case
    by (auto simp: Cons.IH update_conv' fun_eq_iff map_add_def split: option.splits)
qed

lemma distinct_fold_update:
  "distinct (map fst m0) \<Longrightarrow> distinct (map fst (fold (\<lambda>p m. AList.update (f p) p m) ps m0))"
  by (induction ps arbitrary: m0) (simp_all add: distinct_update)

lemma map_of_rev_last:
  "map_of (rev (map (\<lambda>p. (f p, p)) ps)) k
     = (case filter (\<lambda>p. f p = k) ps of [] \<Rightarrow> None | q # qs \<Rightarrow> Some (last (q # qs)))"
proof (induction ps rule: rev_induct)
  case Nil
  show ?case by simp
next
  case (snoc p ps)
  show ?case using snoc.IH by (auto split: list.splits)
qed

lemma fold_xact_dispatch:
  "fold xact_dispatch ps c = c\<lparr>subtransactions := subtransactions c @ ps\<rparr>"
  by (induction ps arbitrary: c) (simp_all add: xact_dispatch_def)

lemma h_configure_eq:
  "h_configure ps h =
     Inr (h\<lparr>h_partitions := fold (\<lambda>partctx m. AList.update (part_path partctx) partctx m) ps [],
              h_root := Some (map fst (fold (\<lambda>partctx m. AList.update (part_path partctx) partctx m) ps [])),
              h_context := (h_context h)\<lparr>subtransactions := subtransactions (h_context h) @ ps\<rparr>\<rparr>)"
  by (simp add: h_configure_def Let_def fold_xact_dispatch)

lemma net_dispatch_default:
  "net_dispatch h (net\<lparr>http_default_host := d\<rparr>)
     = map_sum id (\<lambda>n. n\<lparr>http_default_host := d\<rparr>) (net_dispatch h net)"
  by (simp add: net_dispatch_def split: option.splits)

lemma net_dispatch_all_default:
  "net_dispatch_all hs (net\<lparr>http_default_host := d\<rparr>)
     = map_sum id (\<lambda>n. n\<lparr>http_default_host := d\<rparr>) (net_dispatch_all hs net)"
proof (induction hs arbitrary: net)
  case Nil
  show ?case by simp
next
  case (Cons h hs)
  show ?case
    by (cases "net_dispatch h net") (simp_all add: net_dispatch_default Cons.IH)
qed

lemma net_actuate_default:
  "net_actuate (net\<lparr>http_default_host := d\<rparr>)
     = map_sum id (\<lambda>n. n\<lparr>http_default_host := d\<rparr>) (net_actuate net)"
  by (auto simp: net_actuate_def net_dispatch_all_default split: option.splits sum.splits)

lemma example_network_actuated:
  "net_actuate example_network
     = Inr (example_network\<lparr>http_hosts := [(''example'', example_host)],
                            hostsrc := None,
                            net_context := idle_lifecycle\<lparr>subtransactions := [example_host]\<rparr>\<rparr>)"
  by (simp add: net_actuate_def example_network_def Network_init_def net_dispatch_def
      example_host_def h_update_names_def xact_dispatch_def Host_init_def idle_lifecycle_def)

lemma connect_eq:
  "connect channel ctl log =
     Inr (ctl\<lparr>response_headers := response_headers ctl @ closing_headers ctl\<rparr>,
          log @ [ConnectOutput (request_channel_id ctl)
                   (case response ctl of
                      None \<Rightarrow> None
                    | Some (code, descr, len) \<Rightarrow>
                        Some (code, descr, response_headers ctl @ closing_headers ctl, len))
                   channel]
              @ closing_events ctl)"
  by (simp add: connect_def closing_headers_def closing_events_def add_header_def
      response_tuple_of_def Let_def split: option.splits)

lemma h_options_request_eq:
  assumes "h_allowed_methods h = Some ms"
  shows "h_options_request h ctl log =
     Inr (ctl\<lparr>response_headers :=
                 response_headers ctl @ [(''Allow'', bytes_join '','' ms)] @ closing_headers ctl,
              response := Some (''204'', ''NO CONTENT'', None)\<rparr>,
          log @ [ConnectInput (request_channel_id ctl) None,
                 ConnectOutput (request_channel_id ctl)
                   (Some (''204'', ''NO CONTENT'',
                          response_headers ctl @ [(''Allow'', bytes_join '','' ms)]
                            @ closing_headers ctl, None))
                   None]
              @ closing_events ctl)"
  using assms
  by (simp add: h_options_request_def set_response_eq accept_def connect_eq add_header_def
      closing_headers_def closing_events_def)

lemma h_error_eq:
  assumes "(case description of None \<Rightarrow> descriptioncache codes code | Some d \<Rightarrow> Inr d) = Inr descr"
    and "is_ascii descr"
  shows "h_error codes ctl code description log =
     Inr (ctl\<lparr>response_headers :=
                 response_headers ctl
                   @ [(''Content-Type'', ''text/xml''),
                      (''Content-Length'',
                         str_int (int (length (error_document (str_int code) descr))))]
                   @ closing_headers ctl,
              response := Some (str_int code, descr,
                                Some (int (length (error_document (str_int code) descr))))\<rparr>,
          log @ [Dispatch [[error_document (str_int code) descr]] (request_channel_id ctl),
                 ConnectOutput (request_channel_id ctl)
                   (Some (str_int code, descr,
                          response_headers ctl
                            @ [(''Content-Type'', ''text/xml''),
                               (''Content-Length'',
                                  str_int (int (length (error_document (str_int code) descr))))]
                            @ closing_headers ctl,
                          Some (int (length (error_document (str_int code) descr)))))
                   (Some (Relay (request_channel_id ctl)))]
              @ closing_events ctl)"
  using assms
  by (simp add: h_error_def encode_ascii_def set_response_eq http_iterate_output_def connect_eq
      closing_headers_def closing_events_def Let_def)

lemma Network_terminate_idle:
  "\<not> functioning (net_context net) \<Longrightarrow> Network_terminate net = net"
  by (simp add: Network_terminate_def)

lemma Partition_terminate_idle:
  "\<not> functioning (part_context p) \<Longrightarrow> Partition_terminate p = p"
  by (simp add: Partition_terminate_def)

lemma Host_terminate_kcalls:
  "kcalls (h_context (Host_terminate h))
     = kcalls (h_context h) @ [StartTermination]
         @ map SubTerminate (subtransactions (h_context h)) @ [ExitIfEmpty]"
  by (simp add: Host_terminate_def terminate_cascade_def)




lemma is_ascii_replace_underscores: "is_ascii d \<Longrightarrow> is_ascii (replace_underscores d)"
  by (induction d) (simp_all add: is_ascii_def replace_underscores_def)

lemma is_ascii_append: "is_ascii (a @ b) = (is_ascii a \<and> is_ascii b)"
  by (simp add: is_ascii_def)

lemma str_int_404: "str_int 404 = ''404''"
  by code_simp

lemma is_ascii_error_document:
  "is_ascii code_bytes \<Longrightarrow> is_ascii description_bytes
     \<Longrightarrow> is_ascii (error_document code_bytes description_bytes)"
  by (simp add: error_document_def is_ascii_append) (simp add: is_ascii_def)

lemma h_fallback_eq:
  assumes "codes 404 = Some d" and "is_ascii d"
  shows "h_fallback codes ctl log =
     Inr (ctl\<lparr>response_headers :=
                 response_headers ctl
                   @ [(''Content-Type'', ''text/xml''),
                      (''Content-Length'',
                         str_int (int (length (error_document ''404'' (replace_underscores d)))))]
                   @ closing_headers ctl,
              response := Some (''404'', replace_underscores d,
                                Some (int (length (error_document ''404'' (replace_underscores d)))))\<rparr>,
          log @ [ConnectInput (request_channel_id ctl) None,
                 Dispatch [[error_document ''404'' (replace_underscores d)]] (request_channel_id ctl),
                 ConnectOutput (request_channel_id ctl)
                   (Some (''404'', replace_underscores d,
                          response_headers ctl
                            @ [(''Content-Type'', ''text/xml''),
                               (''Content-Length'',
                                  str_int (int (length (error_document ''404'' (replace_underscores d)))))]
                            @ closing_headers ctl,
                          Some (int (length (error_document ''404'' (replace_underscores d))))))
                   (Some (Relay (request_channel_id ctl)))]
              @ closing_events ctl)"
proof -
  have a: "(case None of None \<Rightarrow> descriptioncache codes 404 | Some d \<Rightarrow> Inr d)
             = Inr (replace_underscores d)"
    using assms(1) by (simp add: descriptioncache_def)
  have b: "is_ascii (replace_underscores d)"
    using assms(2) by (rule is_ascii_replace_underscores)
  show ?thesis
    unfolding h_fallback_def accept_def
    by (simp add: h_error_eq [OF a b] str_int_404)
qed

lemma h_route_no_match:
  assumes "h_root h = Some keys" and "scan_get keys (req_pathstring (request ctl)) = None"
  shows "h_route codes h ctl log =
           (if req_pathstring (request ctl) = ''*'' \<and> req_method (request ctl) = ''OPTIONS''
            then h_options_request h ctl log
            else h_fallback codes ctl log)"
  using assms by (simp add: h_route_def)

lemma mounted_host_configured:
  "h_configure [Partition_init ''/app''] Host_init = Inr mounted_host"
  by (simp add: h_configure_def mounted_host_def xact_dispatch_def Host_init_def idle_lifecycle_def
      Partition_init_def)

lemma scan_get_examples:
  "scan_get [''/app''] ''*'' = None" "scan_get [''/app''] ''/nomatch'' = None"
  by (simp_all add: scan_get_def)

lemma example_codes_404: "example_codes 404 = Some ''NOT_FOUND''"
  by (simp add: example_codes_def)

lemma is_ascii_NOT_FOUND: "is_ascii ''NOT_FOUND''"
  by (simp add: is_ascii_def)

lemma replace_NOT_FOUND: "replace_underscores ''NOT_FOUND'' = ''NOT FOUND''"
  by (simp add: replace_underscores_def)


lemma str_int_211: "str_int 211 = ''211''"
  by code_simp

lemma h_error_log:
  "h_error codes ctl code description log = with_log log (h_error codes ctl code description [])"
  by (simp add: h_error_def with_log_def set_response_eq http_iterate_output_def connect_eq Let_def
      split: sum.splits option.splits)

lemma h_options_request_log:
  "h_options_request h ctl log = with_log log (h_options_request h ctl [])"
  by (simp add: h_options_request_def with_log_def set_response_eq accept_def connect_eq
      split: option.splits)

lemma h_fallback_log:
  "h_fallback codes ctl log = with_log log (h_fallback codes ctl [])"
proof -
  let ?ev = "ConnectInput (request_channel_id ctl) None"
  have a: "h_error codes ctl 404 None (log @ [?ev]) = with_log (log @ [?ev]) (h_error codes ctl 404 None [])"
    by (rule h_error_log)
  have b: "h_error codes ctl 404 None [?ev] = with_log [?ev] (h_error codes ctl 404 None [])"
    by (rule h_error_log)
  show ?thesis
    by (cases "h_error codes ctl 404 None []")
       (auto simp: h_fallback_def accept_def a b with_log_def)
qed

lemma part_select_log:
  "part_select codes ctl log = with_log log (part_select codes ctl [])"
proof -
  let ?ev = "ConnectInput (request_channel_id ctl) None"
  let ?d = "Some ''MISCONFIGURED''"
  have a: "h_error codes ctl 500 ?d (log @ [?ev]) = with_log (log @ [?ev]) (h_error codes ctl 500 ?d [])"
    by (rule h_error_log)
  have b: "h_error codes ctl 500 ?d [?ev] = with_log [?ev] (h_error codes ctl 500 ?d [])"
    by (rule h_error_log)
  show ?thesis
    by (cases "h_error codes ctl 500 ?d []")
       (auto simp: part_select_def accept_def a b with_log_def)
qed

lemma h_route_log:
  "h_route codes h ctl log = with_log log (h_route codes h ctl [])"
proof -
  have e: "\<And>x. with_log log (Inl x) = Inl x" by (simp add: with_log_def)
  show ?thesis
    unfolding h_route_def Let_def
    by (auto simp: e h_options_request_log [of h ctl log] h_fallback_log [of codes ctl log]
        part_select_log [of codes ctl log] split: option.splits)
qed

lemma h_accept_ok:
  "list_all (route_ok S codes h) ds
     \<Longrightarrow> h_accept S codes h ds log = Inr (log @ concat (map (route_events S codes h) ds))"
proof (induction ds arbitrary: log)
  case Nil
  show ?case by simp
next
  case (Cons d ds)
  let ?ctl = "Controller_init (struct_of S d) (d_channel_id d)"
  from Cons.prems obtain c evs where r: "h_route codes h ?ctl [] = Inr (c, evs)"
    by (auto simp: route_ok_def route_result_def split: sum.splits)
  have l: "h_route codes h ?ctl log = Inr (c, log @ evs)"
    by (subst h_route_log) (simp add: r with_log_def)
  have ev: "route_events S codes h d = evs"
    by (simp add: route_events_def route_result_def r)
  from Cons.prems have "list_all (route_ok S codes h) ds" by simp
  then have "h_accept S codes h ds (log @ evs)
      = Inr ((log @ evs) @ concat (map (route_events S codes h) ds))"
    by (rule Cons.IH)
  then show ?case by (simp add: l ev)
qed

lemma h_accept_returns:
  "h_accept S codes h ds log = Inr log' \<Longrightarrow> list_all (route_ok S codes h) ds"
proof (induction ds arbitrary: log)
  case Nil
  show ?case by simp
next
  case (Cons d ds)
  let ?ctl = "Controller_init (struct_of S d) (d_channel_id d)"
  from Cons.prems obtain c l1 where r: "h_route codes h ?ctl log = Inr (c, l1)"
    and rest: "h_accept S codes h ds l1 = Inr log'"
    by (auto split: sum.splits)
  from r have "route_ok S codes h d"
    by (subst (asm) h_route_log)
       (auto simp: route_ok_def route_result_def with_log_def split: sum.splits)
  moreover have "list_all (route_ok S codes h) ds"
    using rest by (rule Cons.IH)
  ultimately show ?case by simp
qed

lemma net_accept_remainder_is_h_accept:
  "net_accept_remainder S codes h ds log = h_accept S codes h ds log"
  by (induction ds arbitrary: log) (simp_all add: Let_def split: sum.splits)

lemma net_accept_Cons:
  "net_accept S codes net (d # ds) log =
     (case net_select_host net (req_host (struct_of S d)) of
        Inl e \<Rightarrow> Inl e
      | Inr h \<Rightarrow>
          (case h_accept S codes h (d # ds) (log @ [IUpdate h]) of
             Inl e \<Rightarrow> Inl e
           | Inr log' \<Rightarrow> Inr (h, log')))"
  by (simp add: net_accept_def Let_def net_accept_remainder_is_h_accept split: sum.splits prod.splits)

lemma host_a_fields:
  "h_root host_a = Some [''/app'']"
  "h_allowed_methods host_a = Some h_defaults_allowed_methods"
  by (simp_all add: host_a_def h_update_names_def mounted_host_def Host_init_def)

lemma options_for_struct:
  "struct_of example_structures (options_for cid name)
     = \<lparr>req_pathstring = ''*'', req_method = ''OPTIONS'', req_host = Some name, req_final = False\<rparr>"
  by (simp add: struct_of_def example_structures_def options_for_def)

lemma route_result_options_host_a:
  "route_result example_structures example_codes host_a (options_for cid name)
     = Inr ((Controller_init (struct_of example_structures (options_for cid name)) cid)
              \<lparr>response_headers := [(''Allow'', ''GET,HEAD,POST,PUT,PATCH,DELETE,OPTIONS'')],
               response := Some (''204'', ''NO CONTENT'', None)\<rparr>,
            [ConnectInput cid None,
             ConnectOutput cid
               (Some (''204'', ''NO CONTENT'',
                      [(''Allow'', ''GET,HEAD,POST,PUT,PATCH,DELETE,OPTIONS'')], None))
               None])"
proof -
  let ?ctl = "Controller_init (struct_of example_structures (options_for cid name)) cid"
  have p: "req_pathstring (request ?ctl) = ''*''" "req_method (request ?ctl) = ''OPTIONS''"
    "request_channel_id ?ctl = cid" "response_headers ?ctl = []"
    "closing_headers ?ctl = []" "closing_events ?ctl = []"
    by (simp_all add: options_for_struct Controller_init_def closing_headers_def closing_events_def)
  have s: "scan_get [''/app''] (req_pathstring (request ?ctl)) = None"
    by (simp add: p scan_get_examples)
  have j: "bytes_join '','' h_defaults_allowed_methods = ''GET,HEAD,POST,PUT,PATCH,DELETE,OPTIONS''"
    by (simp add: h_defaults_allowed_methods_def)
  have "h_route example_codes host_a ?ctl [] = h_options_request host_a ?ctl []"
    using h_route_no_match [OF host_a_fields(1) s] by (simp add: p)
  then have "h_route example_codes host_a ?ctl []
     = Inr (?ctl\<lparr>response_headers := [(''Allow'', ''GET,HEAD,POST,PUT,PATCH,DELETE,OPTIONS'')],
               response := Some (''204'', ''NO CONTENT'', None)\<rparr>,
            [ConnectInput cid None,
             ConnectOutput cid
               (Some (''204'', ''NO CONTENT'',
                      [(''Allow'', ''GET,HEAD,POST,PUT,PATCH,DELETE,OPTIONS'')], None))
               None])"
    by (simp add: h_options_request_eq [OF host_a_fields(2)] p j)
  then show ?thesis
    by (simp add: route_result_def options_for_def)
qed

lemma take_is_prefix: "(take (length k) path = k) = prefix k path"
  by (metis append_eq_conv_conj prefix_def)

lemma scan_get_None_iff:
  "(scan_get keys path = None) = list_all (\<lambda>k. \<not> prefix k path) keys"
proof -
  have "(scan_get keys path = None) = (filter (\<lambda>k. take (length k) path = k) keys = [])"
    by (simp add: scan_get_def split: list.splits)
  then show ?thesis
    by (simp add: take_is_prefix list_all_iff filter_empty_conv)
qed

lemma fold_longest:
  "fold (\<lambda>c best. if length best < length c then c else best) ks k \<in> set (k # ks)
   \<and> (\<forall>c \<in> set (k # ks).
         length c \<le> length (fold (\<lambda>c best. if length best < length c then c else best) ks k))"
proof (induction ks arbitrary: k)
  case Nil
  show ?case by simp
next
  case (Cons c ks)
  show ?case
    using Cons.IH [of c] Cons.IH [of k] by (auto simp: le_less_trans less_imp_le)
qed

lemma scan_get_Some:
  assumes "scan_get keys path = Some k"
  shows "k \<in> set keys \<and> prefix k path
         \<and> (\<forall>c \<in> set keys. prefix c path \<longrightarrow> length c \<le> length k)"
proof -
  let ?ms = "filter (\<lambda>k. take (length k) path = k) keys"
  from assms obtain m ms where ms: "?ms = m # ms"
    and k: "k = fold (\<lambda>c best. if length best < length c then c else best) ms m"
    by (auto simp: scan_get_def split: list.splits)
  have "k \<in> set ?ms" and mx: "\<forall>c \<in> set ?ms. length c \<le> length k"
    using fold_longest [of ms m] by (simp_all add: ms k)
  then show ?thesis
    by (auto simp: take_is_prefix)
qed

lemma scan_get_longest_example:
  "scan_get [''/a'', ''/a/b'', ''/c''] ''/a/b/index'' = Some ''/a/b''"
  by (simp add: scan_get_def)

subsection \<open>The claims\<close>

text \<open>C10: for every Controller, every headers argument and every state of the connection,
  the interim 100-continue emitter raises; it returns no controller and records no call on
  the transport.\<close>

theorem http_continue_always_raises:
  "http_continue headers ctl log = Inl (Exception ''not supported'')"
  by (simp add: http_continue_def)

text \<open>C1 (as stated, refuted): a second \<^verbatim>\<open>set_response\<close> on the same Controller raises
  nothing; the response stored by the first call is replaced.\<close>

theorem set_response_twice_counterexample:
  "set_response ''200'' ''OK'' (Some 5) None example_controller
     = Inr (example_controller\<lparr>response := Some (''200'', ''OK'', Some 5)\<rparr>)
   \<and> set_response ''500'' ''ERROR'' None None
        (example_controller\<lparr>response := Some (''200'', ''OK'', Some 5)\<rparr>)
     = Inr (example_controller\<lparr>response := Some (''500'', ''ERROR'', None)\<rparr>)"
  by (simp add: set_response_def example_controller_def Controller_init_def)

text \<open>C1 (amended): for every Controller, a second \<^verbatim>\<open>set_response\<close> after a first
  successful call succeeds as well: it raises no fault, the stored status, description and
  length become those of the second call, and the headers present after the first call are
  kept in front of whatever the second call adds.\<close>

theorem set_response_second_call_overwrites:
  assumes "set_response c1 d1 l1 t1 ctl = Inr ctl1"
  shows "\<exists>ctl2. set_response c2 d2 l2 t2 ctl1 = Inr ctl2
           \<and> response ctl2 = Some (c2, d2, l2)
           \<and> prefix (response_headers ctl1) (response_headers ctl2)"
  by (simp add: set_response_eq)

theorem set_response_second_call_overwrites_witness:
  "set_response ''200'' ''OK'' (Some 5) None example_controller
     = Inr (example_controller\<lparr>response := Some (''200'', ''OK'', Some 5)\<rparr>)
   \<and> (\<exists>ctl2. set_response ''500'' ''ERROR'' None (Some ''text/xml'')
                (example_controller\<lparr>response := Some (''200'', ''OK'', Some 5)\<rparr>) = Inr ctl2
           \<and> response ctl2 = Some (''500'', ''ERROR'', None)
           \<and> prefix (response_headers (example_controller\<lparr>response := Some (''200'', ''OK'', Some 5)\<rparr>))
                (response_headers ctl2))"
proof -
  have first: "set_response ''200'' ''OK'' (Some 5) None example_controller
     = Inr (example_controller\<lparr>response := Some (''200'', ''OK'', Some 5)\<rparr>)"
    by (simp add: set_response_def example_controller_def Controller_init_def)
  show ?thesis
    using first set_response_second_call_overwrites [OF first, of "''500''" "''ERROR''" None "Some ''text/xml''"]
    by simp
qed

text \<open>C4 (as stated, refuted): with no content type, \<^verbatim>\<open>set_response\<close> adds no framing
  header, neither for length \<^verbatim>\<open>None\<close> nor for a known length.\<close>

theorem set_response_framing_counterexample:
  "set_response ''204'' ''NO CONTENT'' None None example_controller
     = Inr (example_controller\<lparr>response := Some (''204'', ''NO CONTENT'', None)\<rparr>)
   \<and> response_headers (example_controller\<lparr>response := Some (''204'', ''NO CONTENT'', None)\<rparr>) = []
   \<and> set_response ''200'' ''OK'' (Some 10) None example_controller
     = Inr (example_controller\<lparr>response := Some (''200'', ''OK'', Some 10)\<rparr>)
   \<and> response_headers (example_controller\<lparr>response := Some (''200'', ''OK'', Some 10)\<rparr>) = []"
  by (simp add: set_response_def example_controller_def Controller_init_def)

text \<open>C4 (amended): for every Controller whose \<^verbatim>\<open>set_response\<close> is given a content type,
  length \<^verbatim>\<open>None\<close> appends the chunked transfer-encoding header and a known integer length
  appends a content-length header whose value is the decimal text of that integer (and
  reads back as it), each after the content-type header. Given no content type,
  \<^verbatim>\<open>set_response\<close> leaves the headers as they are.\<close>

theorem set_response_framing_headers:
  "(\<exists>ctl'. set_response code descr len (Some ct) ctl = Inr ctl'
       \<and> response_headers ctl' = response_headers ctl @
            [(''Content-Type'', ct),
             (case len of
                None \<Rightarrow> (''Transfer-Encoding'', ''chunked'')
              | Some n \<Rightarrow> (''Content-Length'', str_int n))]
       \<and> (case len of None \<Rightarrow> True | Some n \<Rightarrow> dec_int (str_int n) = n))
   \<and> (\<exists>ctl'. set_response code descr len None ctl = Inr ctl'
         \<and> response_headers ctl' = response_headers ctl)"
  by (simp add: set_response_eq dec_int_str_int split: option.splits)

theorem set_response_framing_headers_witness:
  "(\<exists>ctl'. set_response ''200'' ''OK'' (Some 1234) (Some ''text/plain'') example_controller = Inr ctl'
       \<and> response_headers ctl' =
            [(''Content-Type'', ''text/plain''), (''Content-Length'', ''1234'')]
       \<and> dec_int ''1234'' = 1234)
   \<and> (\<exists>ctl'. set_response ''200'' ''OK'' None (Some ''text/plain'') example_controller = Inr ctl'
       \<and> response_headers ctl' =
            [(''Content-Type'', ''text/plain''), (''Transfer-Encoding'', ''chunked'')])"
proof -
  have s: "str_int 1234 = ''1234''" by code_simp
  have h: "response_headers example_controller = []"
    by (simp add: example_controller_def Controller_init_def)
  show ?thesis
    using set_response_framing_headers [of "''200''" "''OK''" "Some 1234" "''text/plain''" example_controller]
      set_response_framing_headers [of "''200''" "''OK''" None "''text/plain''" example_controller]
    by (simp add: s h)
qed

text \<open>C8 (as stated, refuted): the root mount path has one separator and depth zero.\<close>

theorem part_depth_counterexample:
  "part_depth (Partition_init ''/'') = 0 \<and> count_list ''/'' (CHR ''/'') = 1"
  by (simp add: Partition_init_def count_sep_def)

text \<open>C8 (amended): for every mount path used to construct a Partition, the stored depth
  is the count of path separators in the path minus one.\<close>

theorem part_depth_is_separators_minus_one:
  "part_depth (Partition_init path) = int (count_list path (CHR ''/'')) - 1"
  by (induction path) (simp_all add: Partition_init_def count_sep_def)

theorem part_depth_is_separators_minus_one_witness:
  "part_depth (Partition_init ''/app/static'') = 1 \<and> part_depth (Partition_init ''app'') = - 1"
  using part_depth_is_separators_minus_one [of "''/app/static''"]
    part_depth_is_separators_minus_one [of "''app''"]
  by simp

text \<open>C2 (as stated, refuted): configuring a Host with two partitions mounted at the same
  path raises nothing; the table keeps one entry and both partitions are dispatched.\<close>

theorem h_configure_duplicate_counterexample:
  "h_configure [Partition_init ''/app'', Partition_init ''/app''] Host_init
     = Inr (Host_init\<lparr>h_partitions := [(''/app'', Partition_init ''/app'')],
                      h_root := Some [''/app''],
                      h_context := idle_lifecycle\<lparr>subtransactions :=
                         [Partition_init ''/app'', Partition_init ''/app'']\<rparr>\<rparr>)"
  by (simp add: h_configure_def Host_init_def Partition_init_def xact_dispatch_def
      idle_lifecycle_def)

text \<open>C2 (amended): for every partition list, also one with two partitions of the same
  mount path, Host configuration succeeds: the table holds, for each mount path that
  occurs, the last partition given for it, the index holds each mount path once, and every
  partition of the list is dispatched, duplicates included.\<close>

theorem h_configure_keeps_last_duplicate:
  "\<exists>h'. h_configure ps h = Inr h'
     \<and> map_of (h_partitions h') path
         = (case filter (\<lambda>p. part_path p = path) ps of
              [] \<Rightarrow> None
            | q # qs \<Rightarrow> Some (last (q # qs)))
     \<and> h_root h' = Some (map fst (h_partitions h'))
     \<and> distinct (map fst (h_partitions h'))
     \<and> subtransactions (h_context h') = subtransactions (h_context h) @ ps"
proof -
  let ?hp = "fold (\<lambda>partctx m. AList.update (part_path partctx) partctx m) ps []"
  have "map_of ?hp path = map_of (rev (map (\<lambda>p. (part_path p, p)) ps)) path"
    by (simp add: map_of_fold_update)
  then have m: "map_of ?hp path
         = (case filter (\<lambda>p. part_path p = path) ps of
              [] \<Rightarrow> None
            | q # qs \<Rightarrow> Some (last (q # qs)))"
    by (simp only: map_of_rev_last)
  have d: "distinct (map fst ?hp)"
    by (rule distinct_fold_update) simp
  show ?thesis
    using m d by (simp add: h_configure_eq)
qed

theorem h_configure_keeps_last_duplicate_witness:
  "\<exists>h'. h_configure [Partition_init ''/a'', (Partition_init ''/a'')\<lparr>part_context := idle_lifecycle\<lparr>functioning := True\<rparr>\<rparr>] Host_init = Inr h'
     \<and> map_of (h_partitions h') ''/a'' = Some ((Partition_init ''/a'')\<lparr>part_context := idle_lifecycle\<lparr>functioning := True\<rparr>\<rparr>)
     \<and> h_root h' = Some (map fst (h_partitions h'))
     \<and> distinct (map fst (h_partitions h'))
     \<and> subtransactions (h_context h')
          = [Partition_init ''/a'', (Partition_init ''/a'')\<lparr>part_context := idle_lifecycle\<lparr>functioning := True\<rparr>\<rparr>]"
  using h_configure_keeps_last_duplicate
          [of "[Partition_init ''/a'', (Partition_init ''/a'')\<lparr>part_context := idle_lifecycle\<lparr>functioning := True\<rparr>\<rparr>]" Host_init "''/a''"]
  by (simp add: Partition_init_def Host_init_def idle_lifecycle_def)

text \<open>C3 (as stated, refuted): a Network with no host and no default actuates without any
  error; the missing default shows only when a host is selected, as a failed lookup.\<close>

theorem net_select_host_counterexample:
  "net_actuate (Network_init []) = Inr ((Network_init [])\<lparr>hostsrc := None\<rparr>)
   \<and> net_select_host ((Network_init [])\<lparr>hostsrc := None\<rparr>) (Some ''example.org'') = Inl KeyError
   \<and> net_select_host ((Network_init [])\<lparr>hostsrc := None\<rparr>) None = Inl KeyError"
  by (simp add: net_actuate_def Network_init_def net_select_host_def hosts_get_def)

text \<open>C3 (amended): for every hostname that is absent or not registered with the Network,
  host selection returns the Host registered under the configured default name; if no
  default name is configured, or no Host is registered under it, the selection itself
  fails with a lookup error at the time it is called. Actuating the Network does not look
  at the default name: it succeeds or fails the same way whatever the default is.\<close>

theorem net_select_host_falls_back_to_default:
  assumes "hosts_get (http_hosts net) name = None"
  shows "net_select_host net name
           = (case http_default_host net of
                None \<Rightarrow> Inl KeyError
              | Some d \<Rightarrow>
                  (case map_of (http_hosts net) d of
                     None \<Rightarrow> Inl KeyError
                   | Some h \<Rightarrow> Inr h))
         \<and> net_actuate (net\<lparr>http_default_host := d'\<rparr>)
           = map_sum id (\<lambda>n. n\<lparr>http_default_host := d'\<rparr>) (net_actuate net)"
  using assms
  by (simp add: net_select_host_def hosts_get_def net_actuate_default split: option.splits)

theorem net_select_host_falls_back_to_default_witness:
  "net_actuate example_network = Inr serving_network
   \<and> hosts_get (http_hosts serving_network) (Some ''other.example'') = None
   \<and> net_select_host serving_network (Some ''other.example'') = Inr example_host
   \<and> hosts_get (http_hosts serving_network) None = None
   \<and> net_select_host serving_network None = Inr example_host"
proof -
  have a: "hosts_get (http_hosts serving_network) (Some ''other.example'') = None"
    by (simp add: serving_network_def hosts_get_def)
  have b: "hosts_get (http_hosts serving_network) None = None"
    by (simp add: hosts_get_def)
  have act: "net_actuate example_network = Inr serving_network"
    by (simp add: example_network_actuated serving_network_def)
  have d: "http_default_host serving_network = Some ''example''"
    by (simp add: serving_network_def example_network_def Network_init_def)
  have m: "map_of (http_hosts serving_network) ''example'' = Some example_host"
    by (simp add: serving_network_def)
  have s1: "net_select_host serving_network (Some ''other.example'') = Inr example_host"
    using net_select_host_falls_back_to_default [OF a, of None] by (simp add: d m)
  have s2: "net_select_host serving_network None = Inr example_host"
    using net_select_host_falls_back_to_default [OF b, of None] by (simp add: d m)
  show ?thesis
    using a b act s1 s2 by blast
qed

text \<open>C9 (the code departs from the claim): a Host that is no longer functioning and has
  already gone through one termination runs the whole cascade again when terminated a
  second time, so its state changes; a Network and a Partition in the same lifecycle
  state are left as they are by their guard.\<close>

theorem Host_terminate_repeats_cascade:
  "functioning (h_context terminated_host) = False
   \<and> Host_terminate terminated_host
       = Host_init\<lparr>h_context := idle_lifecycle\<lparr>kcalls :=
           [StartTermination, ExitIfEmpty, StartTermination, ExitIfEmpty]\<rparr>\<rparr>
   \<and> Host_terminate terminated_host \<noteq> terminated_host
   \<and> Network_terminate ((Network_init [])\<lparr>net_context := idle_lifecycle\<lparr>kcalls := [StartTermination, ExitIfEmpty]\<rparr>\<rparr>)
       = (Network_init [])\<lparr>net_context := idle_lifecycle\<lparr>kcalls := [StartTermination, ExitIfEmpty]\<rparr>\<rparr>
   \<and> Partition_terminate
         ((Partition_init ''/'')\<lparr>part_context := idle_lifecycle\<lparr>kcalls := [StartTermination, ExitIfEmpty]\<rparr>\<rparr>)
       = (Partition_init ''/'')\<lparr>part_context := idle_lifecycle\<lparr>kcalls := [StartTermination, ExitIfEmpty]\<rparr>\<rparr>"
  by (simp add: terminated_host_def Host_terminate_def terminate_cascade_def Host_init_def
      idle_lifecycle_def Network_terminate_def Network_init_def Partition_terminate_def
      Partition_init_def)




text \<open>C6: for every request whose path matches no mounted prefix and that is not the
  OPTIONS \<^verbatim>\<open>*\<close> case, provided the status table gives 404 an ASCII description, routing
  succeeds and emits the error document: a fixed XML text, a function of the code 404 and
  of the description only, all of whose characters are ASCII, which refers to the
  stylesheet \<^verbatim>\<open>/sys/error.xsl\<close> and embeds the code 404 and the description (the table's
  entry with underscores replaced by spaces) unescaped. The response declares status 404
  with that description and a length equal to the length of the document, and its
  \<^verbatim>\<open>Content-Length\<close> header is the decimal text of that length.\<close>

theorem h_route_fallback_error_document:
  assumes "h_root h = Some keys"
    and "scan_get keys (req_pathstring (request ctl)) = None"
    and "\<not> (req_pathstring (request ctl) = ''*'' \<and> req_method (request ctl) = ''OPTIONS'')"
    and "codes 404 = Some d"
    and "is_ascii d"
  shows \<open>\<exists>ctl' hdrs doc.
           h_route codes h ctl log =
             Inr (ctl',
                  log @ [ConnectInput (request_channel_id ctl) None,
                         Dispatch [[doc]] (request_channel_id ctl),
                         ConnectOutput (request_channel_id ctl)
                           (Some (''404'', replace_underscores d, hdrs, Some (int (length doc))))
                           (Some (Relay (request_channel_id ctl)))]
                      @ closing_events ctl)
         \<and> doc = ''<?xml version="1.0" encoding="ascii"?><?xml-stylesheet type="text/xsl" href="/sys/error.xsl"?><error xmlns="http://if.fault.io/xml/failure" domain="/internet/http"><frame code="404" message="''
                   @ replace_underscores d @ ''"/></error>''
         \<and> is_ascii doc
         \<and> sublist ''href="/sys/error.xsl"'' doc
         \<and> sublist (''code="404" message="'' @ replace_underscores d @ ''"'') doc
         \<and> hdrs = response_headers ctl
                     @ [(''Content-Type'', ''text/xml''),
                        (''Content-Length'', str_int (int (length doc)))]
                     @ closing_headers ctl
         \<and> dec_int (str_int (int (length doc))) = int (length doc)
         \<and> response ctl' = Some (''404'', replace_underscores d, Some (int (length doc)))
         \<and> response_headers ctl' = hdrs\<close>
proof -
  let ?desc = "replace_underscores d"
  let ?doc = "error_document ''404'' ?desc"
  let ?hdrs = "response_headers ctl
                 @ [(''Content-Type'', ''text/xml''),
                    (''Content-Length'', str_int (int (length ?doc)))]
                 @ closing_headers ctl"
  let ?ctl = "ctl\<lparr>response_headers := ?hdrs,
                    response := Some (''404'', ?desc, Some (int (length ?doc)))\<rparr>"
  have route: "h_route codes h ctl log = h_fallback codes ctl log"
    using assms(1,2,3) by (auto simp: h_route_no_match)
  have res: "h_route codes h ctl log =
             Inr (?ctl,
                  log @ [ConnectInput (request_channel_id ctl) None,
                         Dispatch [[?doc]] (request_channel_id ctl),
                         ConnectOutput (request_channel_id ctl)
                           (Some (''404'', ?desc, ?hdrs, Some (int (length ?doc))))
                           (Some (Relay (request_channel_id ctl)))]
                      @ closing_events ctl)"
    using assms(4,5) h_fallback_eq [where codes = codes and d = d and ctl = ctl and log = log]
    by (simp only: route)
  have doc_text: \<open>?doc = ''<?xml version="1.0" encoding="ascii"?><?xml-stylesheet type="text/xsl" href="/sys/error.xsl"?><error xmlns="http://if.fault.io/xml/failure" domain="/internet/http"><frame code="404" message="''
                   @ ?desc @ ''"/></error>''\<close>
    by (simp add: error_document_def)
  have asc: "is_ascii ?doc"
    by (rule is_ascii_error_document)
       (simp_all add: is_ascii_def is_ascii_replace_underscores [OF assms(5), unfolded is_ascii_def])
  have sheet: \<open>?doc = ''<?xml version="1.0" encoding="ascii"?><?xml-stylesheet type="text/xsl" ''
                  @ ''href="/sys/error.xsl"''
                  @ (''?><error xmlns="http://if.fault.io/xml/failure" domain="/internet/http"><frame code="404" message="''
                     @ ?desc @ ''"/></error>'')\<close>
    by (simp add: error_document_def)
  have s1: \<open>sublist ''href="/sys/error.xsl"'' ?doc\<close>
    by (subst sheet) (rule sublist_appendI)
  have frame: \<open>?doc = ''<?xml version="1.0" encoding="ascii"?><?xml-stylesheet type="text/xsl" href="/sys/error.xsl"?><error xmlns="http://if.fault.io/xml/failure" domain="/internet/http"><frame ''
                  @ (''code="404" message="'' @ ?desc @ ''"'')
                  @ ''/></error>''\<close>
    by (simp add: error_document_def)
  have s2: \<open>sublist (''code="404" message="'' @ ?desc @ ''"'') ?doc\<close>
    by (subst frame) (rule sublist_appendI)
  have rt: "dec_int (str_int (int (length ?doc))) = int (length ?doc)"
    by (rule dec_int_str_int)
  have c1: "response ?ctl = Some (''404'', ?desc, Some (int (length ?doc)))" by simp
  have c2: "response_headers ?ctl = ?hdrs" by simp
  show ?thesis
    using res doc_text asc s1 s2 rt c1 c2 by blast
qed

theorem h_route_fallback_error_document_witness:
  \<open>h_root mounted_host = Some [''/app'']
   \<and> scan_get [''/app''] (req_pathstring (request nomatch_controller)) = None
   \<and> \<not> (req_pathstring (request nomatch_controller) = ''*''
          \<and> req_method (request nomatch_controller) = ''OPTIONS'')
   \<and> example_codes 404 = Some ''NOT_FOUND''
   \<and> is_ascii ''NOT_FOUND''
   \<and> (\<exists>ctl'. h_route example_codes mounted_host nomatch_controller [] =
         Inr (ctl',
              [ConnectInput 8 None,
               Dispatch [[''<?xml version="1.0" encoding="ascii"?><?xml-stylesheet type="text/xsl" href="/sys/error.xsl"?><error xmlns="http://if.fault.io/xml/failure" domain="/internet/http"><frame code="404" message="NOT FOUND"/></error>'']] 8,
               ConnectOutput 8
                 (Some (''404'', ''NOT FOUND'',
                        [(''Content-Type'', ''text/xml''), (''Content-Length'', ''211''),
                         (''Connection'', ''close'')],
                        Some 211))
                 (Some (Relay 8)),
               IClose]))\<close>
proof -
  have r: "h_root mounted_host = Some [''/app'']"
    by (simp add: mounted_host_def)
  have pn: "req_pathstring (request nomatch_controller) = ''/nomatch''"
    "request_channel_id nomatch_controller = 8"
    "closing_events nomatch_controller = [IClose]"
    "closing_headers nomatch_controller = [(''Connection'', ''close'')]"
    "response_headers nomatch_controller = []"
    by (simp_all add: nomatch_controller_def Controller_init_def closing_events_def
        closing_headers_def)
  have sn: "scan_get [''/app''] (req_pathstring (request nomatch_controller)) = None"
    by (simp add: pn scan_get_examples)
  have no: "\<not> (req_pathstring (request nomatch_controller) = ''*''
          \<and> req_method (request nomatch_controller) = ''OPTIONS'')"
    by (simp add: pn)
  obtain ctl' hdrs doc where
    res: "h_route example_codes mounted_host nomatch_controller [] =
             Inr (ctl',
                  [] @ [ConnectInput (request_channel_id nomatch_controller) None,
                         Dispatch [[doc]] (request_channel_id nomatch_controller),
                         ConnectOutput (request_channel_id nomatch_controller)
                           (Some (''404'', replace_underscores ''NOT_FOUND'', hdrs, Some (int (length doc))))
                           (Some (Relay (request_channel_id nomatch_controller)))]
                      @ closing_events nomatch_controller)"
    and doc: \<open>doc = ''<?xml version="1.0" encoding="ascii"?><?xml-stylesheet type="text/xsl" href="/sys/error.xsl"?><error xmlns="http://if.fault.io/xml/failure" domain="/internet/http"><frame code="404" message="''
                   @ replace_underscores ''NOT_FOUND'' @ ''"/></error>''\<close>
    and hdrs: "hdrs = response_headers nomatch_controller
                     @ [(''Content-Type'', ''text/xml''),
                        (''Content-Length'', str_int (int (length doc)))]
                     @ closing_headers nomatch_controller"
    using h_route_fallback_error_document
            [where codes = example_codes and log = "[]",
              OF r sn no example_codes_404 is_ascii_NOT_FOUND]
    by blast
  have doc': \<open>doc = ''<?xml version="1.0" encoding="ascii"?><?xml-stylesheet type="text/xsl" href="/sys/error.xsl"?><error xmlns="http://if.fault.io/xml/failure" domain="/internet/http"><frame code="404" message="NOT FOUND"/></error>''\<close>
    using doc by (simp add: replace_NOT_FOUND)
  have len: "length doc = 211"
    by (simp add: doc')
  have hdrs': "hdrs = [(''Content-Type'', ''text/xml''), (''Content-Length'', ''211''),
                         (''Connection'', ''close'')]"
    using hdrs by (simp add: pn len str_int_211)
  have "h_route example_codes mounted_host nomatch_controller [] =
         Inr (ctl',
              [ConnectInput 8 None,
               Dispatch [[doc]] 8,
               ConnectOutput 8 (Some (''404'', ''NOT FOUND'', hdrs, Some 211)) (Some (Relay 8)),
               IClose])"
    using res by (simp add: pn len replace_NOT_FOUND)
  then show ?thesis
    using r sn no example_codes_404 is_ascii_NOT_FOUND unfolding doc' hdrs' by blast
qed

text \<open>C7: a non-empty batch is accepted exactly when the Host selected from the first
  descriptor's host header exists and that one Host routes every descriptor of the batch;
  the returned Host is that Host, and the connection's log is extended by the update of
  the acceptor to that Host followed, descriptor by descriptor in batch order, by the
  events of routing a fresh Controller for the descriptor through that same Host. The
  host headers of the later descriptors are not consulted. The whole of \<^verbatim>\<open>net_accept\<close>
  after the selection is the selected Host's own \<^verbatim>\<open>h_accept\<close> loop over the batch.\<close>

theorem net_accept_routes_batch_to_first_host:
  "(net_accept S codes net (d # ds) log = Inr (h, log')) =
     (net_select_host net (req_host (struct_of S d)) = Inr h
      \<and> list_all (route_ok S codes h) (d # ds)
      \<and> log' = log @ [IUpdate h] @ concat (map (route_events S codes h) (d # ds)))
   \<and> net_accept S codes net (d # ds) log =
       (case net_select_host net (req_host (struct_of S d)) of
          Inl e \<Rightarrow> Inl e
        | Inr h \<Rightarrow>
            (case h_accept S codes h (d # ds) (log @ [IUpdate h]) of
               Inl e \<Rightarrow> Inl e
             | Inr log' \<Rightarrow> Inr (h, log')))"
proof (intro conjI iffI)
  assume a: "net_accept S codes net (d # ds) log = Inr (h, log')"
  then show sel: "net_select_host net (req_host (struct_of S d)) = Inr h"
    by (auto simp: net_accept_Cons split: sum.splits)
  from a have acc: "h_accept S codes h (d # ds) (log @ [IUpdate h]) = Inr log'"
    by (auto simp: net_accept_Cons split: sum.splits)
  then show ok: "list_all (route_ok S codes h) (d # ds)"
    by (rule h_accept_returns)
  show "log' = log @ [IUpdate h] @ concat (map (route_events S codes h) (d # ds))"
    using acc h_accept_ok [OF ok, of "log @ [IUpdate h]"] by simp
next
  assume b: "net_select_host net (req_host (struct_of S d)) = Inr h
      \<and> list_all (route_ok S codes h) (d # ds)
      \<and> log' = log @ [IUpdate h] @ concat (map (route_events S codes h) (d # ds))"
  then have "h_accept S codes h (d # ds) (log @ [IUpdate h]) = Inr log'"
    using h_accept_ok [of S codes h "d # ds" "log @ [IUpdate h]"] by simp
  then show "net_accept S codes net (d # ds) log = Inr (h, log')"
    using b by (simp add: net_accept_Cons)
next
  show "net_accept S codes net (d # ds) log =
       (case net_select_host net (req_host (struct_of S d)) of
          Inl e \<Rightarrow> Inl e
        | Inr h \<Rightarrow>
            (case h_accept S codes h (d # ds) (log @ [IUpdate h]) of
               Inl e \<Rightarrow> Inl e
             | Inr log' \<Rightarrow> Inr (h, log')))"
    by (rule net_accept_Cons)
qed

theorem net_accept_routes_batch_to_first_host_witness:
  "net_accept example_structures example_codes two_host_network
      [options_for 1 ''a.example'', options_for 2 ''b.example''] []
    = Inr (host_a,
           [IUpdate host_a,
            ConnectInput 1 None,
            ConnectOutput 1
              (Some (''204'', ''NO CONTENT'',
                     [(''Allow'', ''GET,HEAD,POST,PUT,PATCH,DELETE,OPTIONS'')], None))
              None,
            ConnectInput 2 None,
            ConnectOutput 2
              (Some (''204'', ''NO CONTENT'',
                     [(''Allow'', ''GET,HEAD,POST,PUT,PATCH,DELETE,OPTIONS'')], None))
              None])
   \<and> net_select_host two_host_network (Some ''b.example'') = Inr host_b
   \<and> h_allowed_methods host_b = Some [''GET'']"
proof -
  let ?S = example_structures and ?C = example_codes
  let ?d1 = "options_for 1 ''a.example''" and ?d2 = "options_for 2 ''b.example''"
  have sel: "net_select_host two_host_network (req_host (struct_of ?S ?d1)) = Inr host_a"
    by (simp add: options_for_struct net_select_host_def hosts_get_def two_host_network_def)
  have selb: "net_select_host two_host_network (Some ''b.example'') = Inr host_b"
    by (simp add: net_select_host_def hosts_get_def two_host_network_def)
  have ok: "list_all (route_ok ?S ?C host_a) [?d1, ?d2]"
    by (simp add: route_ok_def route_result_options_host_a)
  have ev: "concat (map (route_events ?S ?C host_a) [?d1, ?d2])
      = [ConnectInput 1 None,
         ConnectOutput 1
           (Some (''204'', ''NO CONTENT'',
                  [(''Allow'', ''GET,HEAD,POST,PUT,PATCH,DELETE,OPTIONS'')], None))
           None,
         ConnectInput 2 None,
         ConnectOutput 2
           (Some (''204'', ''NO CONTENT'',
                  [(''Allow'', ''GET,HEAD,POST,PUT,PATCH,DELETE,OPTIONS'')], None))
           None]"
    by (simp add: route_events_def route_result_options_host_a)
  have mb: "h_allowed_methods host_b = Some [''GET'']"
    by (simp add: host_b_def)
  have "net_accept ?S ?C two_host_network [?d1, ?d2] []
    = Inr (host_a, [] @ [IUpdate host_a] @ concat (map (route_events ?S ?C host_a) [?d1, ?d2]))"
    using net_accept_routes_batch_to_first_host
            [where S = "?S" and codes = "?C" and net = two_host_network and d = "?d1"
               and ds = "[?d2]" and log = "[]" and h = host_a
               and log' = "[] @ [IUpdate host_a] @ concat (map (route_events ?S ?C host_a) [?d1, ?d2])"]
      sel ok
    by blast
  then have "net_accept ?S ?C two_host_network [?d1, ?d2] []
    = Inr (host_a,
           [IUpdate host_a,
            ConnectInput 1 None,
            ConnectOutput 1
              (Some (''204'', ''NO CONTENT'',
                     [(''Allow'', ''GET,HEAD,POST,PUT,PATCH,DELETE,OPTIONS'')], None))
              None,
            ConnectInput 2 None,
            ConnectOutput 2
              (Some (''204'', ''NO CONTENT'',
                     [(''Allow'', ''GET,HEAD,POST,PUT,PATCH,DELETE,OPTIONS'')], None))
              None])"
    unfolding ev by simp
  then show ?thesis
    using selb mb by blast
qed

end
